theory Spec2Isabelle
  imports Complex_Main
begin

section \<open>Data model\<close>

text \<open>
  The relational tables the route handlers read and write. A calendar date is the number
  of its day and a timestamp a point on an integer time line, so that the comparisons of
  the queries are comparisons of integers. A NUMBER column holding money is a rational;
  the conversion of such a value by Python's \<open>float\<close> is not modelled. A nullable column
  is an option. Every table is the list of its rows.
\<close>

record usuario_row =
  u_id :: int
  u_nome_completo :: string
  u_senha_hash :: string
  u_setor :: string
  u_is_admin :: int
  u_ativo :: int
  u_data_cadastro :: "int option"

record sabor_row =
  s_id :: int
  s_nome :: string
  s_preco_pedaco :: rat
  s_ativo :: int

record evento_row =
  e_id :: int
  e_data_evento :: int
  e_status :: string
  e_data_limite :: int
  e_data_criacao :: "int option"

record pedido_row =
  p_id :: int
  p_evento_id :: int
  p_usuario_id :: int
  p_valor_total :: rat
  p_valor_frete :: rat
  p_status :: string

record item_pedido_row =
  ip_id :: int
  ip_pedido_id :: int
  ip_sabor_id :: int
  ip_quantidade :: int
  ip_preco_unitario :: rat
  ip_subtotal :: rat

record banco =
  usuarios :: "usuario_row list"
  sabores :: "sabor_row list"
  eventos :: "evento_row list"
  pedidos :: "pedido_row list"
  itens_pedido :: "item_pedido_row list"

text \<open>
  \<open>HTTPException\<close> carries the status code and the detail of the source's
  \<open>raise HTTPException(...)\<close>. \<open>RequestValidationError\<close> is the rejection of a request
  body by its schema in \<open>models.py\<close>, which happens before the handler is entered.
  \<open>InternalError\<close> is a Python exception that no handler catches (subscripting \<open>None\<close>).
  A handler that succeeds returns the status code of its route with the response body.
\<close>

datatype erro = HTTPException nat string | RequestValidationError | InternalError

subsection \<open>Response models (\<open>models.py\<close>)\<close>

record EventoResponse =
  data_evento :: int
  data_limite :: int
  nome :: "string option"
  id :: int
  status :: string
  data_criacao :: "int option"

record ResumoEvento =
  evento :: EventoResponse
  total_participantes :: int
  total_pedidos :: int
  total_pizzas :: int
  valor_total :: rat

text \<open>
  The handlers build an \<open>EventoResponse\<close> from the five selected columns, in the order
  \<open>id, data_evento, status, data_limite, data_criacao\<close>; \<open>nome\<close> keeps its default.
\<close>

definition evento_response :: "evento_row \<Rightarrow> EventoResponse" where
  "evento_response r =
     \<lparr> data_evento = e_data_evento r, data_limite = e_data_limite r, nome = None,
       id = e_id r, status = e_status r, data_criacao = e_data_criacao r \<rparr>"

section \<open>Decimal rendering of integers\<close>

text \<open>Python's \<open>str\<close> on an integer, used by the f-string of \<open>deletar_evento\<close> and by
  \<open>str(user["id"])\<close> in \<open>login\<close>.\<close>

definition digit_char :: "nat \<Rightarrow> char" where
  "digit_char d = ''0123456789'' ! (d mod 10)"

function str_nat :: "nat \<Rightarrow> string" where
  "str_nat n = (if n < 10 then [digit_char n] else str_nat (n div 10) @ [digit_char (n mod 10)])"
  by pat_completeness auto
termination
  by (relation "measure (\<lambda>n. n)") auto

declare str_nat.simps [simp del]

definition str_int :: "int \<Rightarrow> string" where
  "str_int i = (if i < 0 then CHR ''-'' # str_nat (nat (- i)) else str_nat (nat i))"

text \<open>
  Reading a string of decimal digits as a number, most significant digit first: what a
  reader of a message or of a token subject takes the digits to mean.
\<close>

definition digit_value :: "char \<Rightarrow> nat" where
  "digit_value c = of_char c - 48"

definition valor_decimal :: "string \<Rightarrow> nat" where
  "valor_decimal s = foldl (\<lambda>acc c. 10 * acc + digit_value c) 0 s"

section \<open>Event summary (\<open>obter_resumo_evento\<close>)\<close>

text \<open>
  \<open>FROM pedidos p LEFT JOIN itens_pedido ip ON p.id = ip.pedido_id\<close>: one joined row for
  every pair of an order and one of its line items, and one row with a NULL item for an
  order that has no line item.
\<close>

definition join_block ::
  "pedido_row \<Rightarrow> item_pedido_row list \<Rightarrow> (pedido_row \<times> item_pedido_row option) list" where
  "join_block p items =
     (let ms = filter (\<lambda>i. p_id p = ip_pedido_id i) items
      in if ms = [] then [(p, None)] else map (\<lambda>i. (p, Some i)) ms)"

definition left_join ::
  "pedido_row list \<Rightarrow> item_pedido_row list \<Rightarrow> (pedido_row \<times> item_pedido_row option) list" where
  "left_join ps items = concat (map (\<lambda>p. join_block p items) ps)"

text \<open>The joined rows that pass \<open>WHERE p.evento_id = :evento_id\<close>.\<close>

definition stats_rows :: "banco \<Rightarrow> int \<Rightarrow> (pedido_row \<times> item_pedido_row option) list" where
  "stats_rows db evento_id =
     filter (\<lambda>(p, i). p_evento_id p = evento_id) (left_join (pedidos db) (itens_pedido db))"

text \<open>
  The SQL aggregates over a column given as the list of its values, NULL being \<open>None\<close>:
  \<open>COUNT\<close> counts the non-NULL values, \<open>COUNT(DISTINCT ...)\<close> the different non-NULL
  values, and \<open>SUM\<close> adds the non-NULL values and is NULL when there is none.
\<close>

definition sql_count :: "'a option list \<Rightarrow> int" where
  "sql_count col = int (length (List.map_filter (\<lambda>v. v) col))"

definition sql_count_distinct :: "'a option list \<Rightarrow> int" where
  "sql_count_distinct col = int (length (remdups (List.map_filter (\<lambda>v. v) col)))"

definition sql_sum :: "('a::monoid_add) option list \<Rightarrow> 'a option" where
  "sql_sum col = (case List.map_filter (\<lambda>v. v) col of [] \<Rightarrow> None | v # vs \<Rightarrow> Some (sum_list (v # vs)))"

text \<open>The single row \<open>stats_query\<close> returns: the four aggregates of its select list.\<close>

definition stats_query :: "banco \<Rightarrow> int \<Rightarrow> int \<times> int \<times> rat option \<times> int option" where
  "stats_query db evento_id =
     (let rows = stats_rows db evento_id in
      (sql_count_distinct (map (\<lambda>(p, i). Some (p_usuario_id p)) rows),
       sql_count (map (\<lambda>(p, i). Some (p_id p)) rows),
       sql_sum (map (\<lambda>(p, i). Some (p_valor_total p + p_valor_frete p)) rows),
       sql_sum (map (\<lambda>(p, i). map_option ip_quantidade i) rows)))"

text \<open>\<open>int(x) if x else 0\<close> and \<open>float(x) if x else 0.0\<close>: \<open>None\<close> and zero are both
  falsy.\<close>

definition truthy_or_zero :: "('a::zero) option \<Rightarrow> 'a" where
  "truthy_or_zero x = (case x of None \<Rightarrow> 0 | Some v \<Rightarrow> if v \<noteq> 0 then v else 0)"

text \<open>\<open>execute_query(..., fetch_one=True)\<close> with \<open>WHERE id = :evento_id\<close>: the first
  matching row, or \<open>None\<close>. The handlers of \<open>routes_eventos.py\<close> are modelled as their
  bodies: the \<open>current_user\<close> their dependency resolves is not read by any of them.\<close>

definition evento_por_id :: "banco \<Rightarrow> int \<Rightarrow> evento_row option" where
  "evento_por_id db evento_id = find (\<lambda>e. e_id e = evento_id) (eventos db)"

definition nao_encontrado :: string where
  "nao_encontrado = ''Evento n'' @ [char_of (227::nat)] @ ''o encontrado''"

definition obter_resumo_evento :: "banco \<Rightarrow> int \<Rightarrow> erro + nat \<times> ResumoEvento" where
  "obter_resumo_evento db evento_id =
     (case evento_por_id db evento_id of
        None \<Rightarrow> Inl (HTTPException 404 nao_encontrado)
      | Some evento_result \<Rightarrow>
          (case stats_query db evento_id of (r0, r1, r2, r3) \<Rightarrow>
             let total_pedacos = truthy_or_zero r3 in
             Inr (200,
                  \<lparr> evento = evento_response evento_result,
                    total_participantes = truthy_or_zero (Some r0),
                    total_pedidos = truthy_or_zero (Some r1),
                    total_pizzas = total_pedacos div 8,
                    valor_total = truthy_or_zero r2 \<rparr>)))"

text \<open>
  What the summary is to report, in the specification's words: the orders of an event,
  the users who ordered, the sum of order total plus shipping, and the slices of all
  line items that belong to an order of the event.
\<close>

definition pedidos_do_evento :: "banco \<Rightarrow> int \<Rightarrow> pedido_row list" where
  "pedidos_do_evento db evento_id = filter (\<lambda>p. p_evento_id p = evento_id) (pedidos db)"

definition spec_order_count :: "banco \<Rightarrow> int \<Rightarrow> int" where
  "spec_order_count db evento_id = int (length (pedidos_do_evento db evento_id))"

definition spec_participant_count :: "banco \<Rightarrow> int \<Rightarrow> int" where
  "spec_participant_count db evento_id =
     int (length (remdups (map p_usuario_id (pedidos_do_evento db evento_id))))"

definition spec_total_value :: "banco \<Rightarrow> int \<Rightarrow> rat" where
  "spec_total_value db evento_id =
     sum_list (map (\<lambda>p. p_valor_total p + p_valor_frete p) (pedidos_do_evento db evento_id))"

definition itens_do_evento :: "banco \<Rightarrow> int \<Rightarrow> item_pedido_row list" where
  "itens_do_evento db evento_id =
     filter (\<lambda>i. list_ex (\<lambda>p. p_id p = ip_pedido_id i \<and> p_evento_id p = evento_id) (pedidos db))
       (itens_pedido db)"

definition spec_total_slices :: "banco \<Rightarrow> int \<Rightarrow> int" where
  "spec_total_slices db evento_id = sum_list (map ip_quantidade (itens_do_evento db evento_id))"

section \<open>Event lifecycle (\<open>routes_eventos.py\<close>)\<close>

subsection \<open>\<open>obter_evento_ativo\<close>\<close>

text \<open>
  \<open>WHERE status = 'ABERTO' AND data_limite > SYSTIMESTAMP ORDER BY data_evento DESC\<close>,
  with the database clock \<open>agora\<close> as a parameter. SQL leaves the order of rows with equal
  \<open>data_evento\<close> open; the model keeps them in table order.
\<close>

definition evento_aberto :: "int \<Rightarrow> evento_row \<Rightarrow> bool" where
  "evento_aberto agora e = (e_status e = ''ABERTO'' \<and> e_data_limite e > agora)"

definition ativo_rows :: "int \<Rightarrow> banco \<Rightarrow> evento_row list" where
  "ativo_rows agora db =
     sort_key (\<lambda>e. - e_data_evento e) (filter (evento_aberto agora) (eventos db))"

definition sem_evento_ativo :: string where
  "sem_evento_ativo =
     ''N'' @ [char_of (227::nat)] @ ''o h'' @ [char_of (225::nat)] @ '' evento ativo no momento''"

text \<open>\<open>FETCH FIRST 1 ROWS ONLY\<close> with \<open>fetch_one\<close>: the first row, or \<open>None\<close>.\<close>

definition obter_evento_ativo :: "int \<Rightarrow> banco \<Rightarrow> erro + nat \<times> EventoResponse" where
  "obter_evento_ativo agora db =
     (case ativo_rows agora db of
        [] \<Rightarrow> Inl (HTTPException 404 sem_evento_ativo)
      | result # rest \<Rightarrow> Inr (200, evento_response result))"

subsection \<open>\<open>criar_evento\<close>\<close>

record EventoCreate =
  ec_data_evento :: int
  ec_data_limite :: int
  ec_nome :: "string option"

text \<open>
  The INSERT names three columns. The two it leaves to the database, the key \<open>id\<close> and
  \<open>data_criacao\<close>, come from a table definition that is not among the sources: they are
  the parameters \<open>novo_id\<close> and \<open>criado\<close>.
\<close>

definition evento_por_data :: "banco \<Rightarrow> int \<Rightarrow> evento_row option" where
  "evento_por_data db d = find (\<lambda>e. e_data_evento e = d) (eventos db)"

definition ja_existe_evento :: string where
  "ja_existe_evento = ''J'' @ [char_of (225::nat)] @ '' existe um evento para esta data''"

definition insert_evento :: "int \<Rightarrow> int option \<Rightarrow> EventoCreate \<Rightarrow> banco \<Rightarrow> banco" where
  "insert_evento novo_id criado ev db =
     db\<lparr> eventos := eventos db @
           [\<lparr> e_id = novo_id, e_data_evento = ec_data_evento ev, e_status = ''ABERTO'',
              e_data_limite = ec_data_limite ev, e_data_criacao = criado \<rparr>] \<rparr>"

definition criar_evento ::
  "int \<Rightarrow> int option \<Rightarrow> EventoCreate \<Rightarrow> banco \<Rightarrow> (erro + nat \<times> EventoResponse) \<times> banco" where
  "criar_evento novo_id criado ev db =
     (case evento_por_data db (ec_data_evento ev) of
        Some existing \<Rightarrow> (Inl (HTTPException 400 ja_existe_evento), db)
      | None \<Rightarrow>
          (let db' = insert_evento novo_id criado ev db in
           case evento_por_data db' (ec_data_evento ev) of
             None \<Rightarrow> (Inl InternalError, db')
           | Some result \<Rightarrow> (Inr (201, evento_response result), db')))"

subsection \<open>\<open>atualizar_evento\<close>\<close>

record EventoUpdate =
  eu_status :: "string option"
  eu_data_limite :: "int option"

text \<open>\<open>Field(None, pattern="^(ABERTO|FECHADO|FINALIZADO)$")\<close> on the optional status. The
  pattern is anchored at both ends, and pydantic, whose \<open>pattern\<close> keyword this is, matches
  it against the whole string: the three words and nothing else pass.\<close>

definition valid_EventoUpdate :: "EventoUpdate \<Rightarrow> bool" where
  "valid_EventoUpdate u =
     (case eu_status u of
        None \<Rightarrow> True
      | Some s \<Rightarrow> s = ''ABERTO'' \<or> s = ''FECHADO'' \<or> s = ''FINALIZADO'')"

text \<open>One entry of the handler's \<open>updates\<close> list, with its value from \<open>params\<close>.\<close>

datatype atribuicao = SetStatus string | SetDataLimite int

fun aplicar :: "atribuicao \<Rightarrow> evento_row \<Rightarrow> evento_row" where
  "aplicar (SetStatus s) r = r\<lparr> e_status := s \<rparr>"
| "aplicar (SetDataLimite d) r = r\<lparr> e_data_limite := d \<rparr>"

definition montar_updates :: "EventoUpdate \<Rightarrow> atribuicao list" where
  "montar_updates u =
     (case eu_status u of None \<Rightarrow> [] | Some s \<Rightarrow> [SetStatus s]) @
     (case eu_data_limite u of None \<Rightarrow> [] | Some d \<Rightarrow> [SetDataLimite d])"

text \<open>\<open>UPDATE eventos SET ... WHERE id = :evento_id\<close>.\<close>

definition update_eventos :: "atribuicao list \<Rightarrow> int \<Rightarrow> banco \<Rightarrow> banco" where
  "update_eventos updates evento_id db =
     db\<lparr> eventos := map (\<lambda>r. if e_id r = evento_id then fold aplicar updates r else r) (eventos db) \<rparr>"

definition nenhum_campo :: string where
  "nenhum_campo = ''Nenhum campo para atualizar''"

definition atualizar_evento ::
  "int \<Rightarrow> EventoUpdate \<Rightarrow> banco \<Rightarrow> (erro + nat \<times> EventoResponse) \<times> banco" where
  "atualizar_evento evento_id u db =
     (case evento_por_id db evento_id of
        None \<Rightarrow> (Inl (HTTPException 404 nao_encontrado), db)
      | Some existing \<Rightarrow>
          (let updates = montar_updates u in
           if updates = [] then (Inl (HTTPException 400 nenhum_campo), db)
           else
             (let db' = update_eventos updates evento_id db in
              case evento_por_id db' evento_id of
                None \<Rightarrow> (Inl InternalError, db')
              | Some result \<Rightarrow> (Inr (200, evento_response result), db'))))"

text \<open>The route: the body is checked against its schema, then the handler runs.\<close>

definition put_evento ::
  "int \<Rightarrow> EventoUpdate \<Rightarrow> banco \<Rightarrow> (erro + nat \<times> EventoResponse) \<times> banco" where
  "put_evento evento_id u db =
     (if valid_EventoUpdate u then atualizar_evento evento_id u db
      else (Inl RequestValidationError, db))"

text \<open>
  The partial update in the specification's words: each provided field replaces the
  stored one, each omitted field keeps its value, and nothing else changes.
\<close>

definition spec_partial_update :: "EventoUpdate \<Rightarrow> evento_row \<Rightarrow> evento_row" where
  "spec_partial_update u r =
     r\<lparr> e_status := (case eu_status u of None \<Rightarrow> e_status r | Some s \<Rightarrow> s),
        e_data_limite := (case eu_data_limite u of None \<Rightarrow> e_data_limite r | Some d \<Rightarrow> d) \<rparr>"

subsection \<open>\<open>deletar_evento\<close>\<close>





section \<open>Authentication routes (\<open>routes_auth.py\<close>)\<close>

record UsuarioCreate =
  uc_nome_completo :: string
  uc_setor :: string
  uc_senha :: string
  uc_is_admin :: bool

record UsuarioLogin =
  ul_nome_completo :: string
  ul_senha :: string

record UsuarioResponse =
  ur_nome_completo :: string
  ur_setor :: string
  ur_id :: int
  ur_is_admin :: bool
  ur_ativo :: bool
  ur_data_cadastro :: "int option"

text \<open>The length constraints of \<open>UsuarioBase\<close> and \<open>UsuarioCreate\<close>.\<close>

definition valid_UsuarioCreate :: "UsuarioCreate \<Rightarrow> bool" where
  "valid_UsuarioCreate u =
     (3 \<le> length (uc_nome_completo u) \<and> length (uc_nome_completo u) \<le> 200 \<and>
      2 \<le> length (uc_setor u) \<and> length (uc_setor u) \<le> 100 \<and>
      6 \<le> length (uc_senha u))"

text \<open>
  The INSERT of \<open>register\<close> names four columns; \<open>id\<close>, \<open>ativo\<close> and \<open>data_cadastro\<close> are
  left to the database, whose table definition is not among the sources.
\<close>

record usuario_padrao =
  pd_id :: int
  pd_ativo :: int
  pd_data_cadastro :: "int option"

definition usuario_por_nome :: "banco \<Rightarrow> string \<Rightarrow> usuario_row option" where
  "usuario_por_nome db n = find (\<lambda>u. u_nome_completo u = n) (usuarios db)"

definition usuario_response :: "usuario_row \<Rightarrow> UsuarioResponse" where
  "usuario_response r =
     \<lparr> ur_nome_completo = u_nome_completo r, ur_setor = u_setor r, ur_id = u_id r,
       ur_is_admin = (u_is_admin r \<noteq> 0), ur_ativo = (u_ativo r \<noteq> 0),
       ur_data_cadastro = u_data_cadastro r \<rparr>"

text \<open>
  \<open>UsuarioResponse\<close> inherits the length bounds of \<open>UsuarioBase\<close>, so building one from a
  stored row checks them; a row that fails raises an exception that no handler catches.
\<close>

definition valid_UsuarioBase :: "string \<Rightarrow> string \<Rightarrow> bool" where
  "valid_UsuarioBase nome_completo setor =
     (3 \<le> length nome_completo \<and> length nome_completo \<le> 200 \<and>
      2 \<le> length setor \<and> length setor \<le> 100)"

definition montar_UsuarioResponse :: "usuario_row \<Rightarrow> erro + UsuarioResponse" where
  "montar_UsuarioResponse r =
     (if valid_UsuarioBase (u_nome_completo r) (u_setor r) then Inr (usuario_response r)
      else Inl InternalError)"

definition usuario_ja_existe :: string where
  "usuario_ja_existe =
     ''Usu'' @ [char_of (225::nat)] @ ''rio j'' @ [char_of (225::nat)] @ '' existe com este nome''"

definition insert_usuario :: "(string \<Rightarrow> string) \<Rightarrow> usuario_padrao \<Rightarrow> UsuarioCreate \<Rightarrow> banco \<Rightarrow> banco" where
  "insert_usuario get_password_hash pd user db =
     (let hashed_password = get_password_hash (uc_senha user) in
      db\<lparr> usuarios := usuarios db @
            [\<lparr> u_id = pd_id pd, u_nome_completo = uc_nome_completo user,
               u_senha_hash = hashed_password, u_setor = uc_setor user,
               u_is_admin = (if uc_is_admin user then 1 else 0),
               u_ativo = pd_ativo pd, u_data_cadastro = pd_data_cadastro pd \<rparr>] \<rparr>)"

text \<open>\<open>get_password_hash\<close> belongs to \<open>auth.py\<close>, which is not among the sources: it is a
  parameter of \<open>register\<close>.\<close>

definition register ::
  "(string \<Rightarrow> string) \<Rightarrow> usuario_padrao \<Rightarrow> UsuarioCreate \<Rightarrow> banco
     \<Rightarrow> (erro + nat \<times> UsuarioResponse) \<times> banco" where
  "register get_password_hash pd user db =
     (case usuario_por_nome db (uc_nome_completo user) of
        Some existing \<Rightarrow> (Inl (HTTPException 400 usuario_ja_existe), db)
      | None \<Rightarrow>
          (let db' = insert_usuario get_password_hash pd user db in
           case usuario_por_nome db' (uc_nome_completo user) of
             None \<Rightarrow> (Inl InternalError, db')
           | Some result \<Rightarrow>
               (case montar_UsuarioResponse result of
                  Inl e \<Rightarrow> (Inl e, db')
                | Inr resp \<Rightarrow> (Inr (201, resp), db'))))"

text \<open>
  The route \<open>POST /auth/register\<close>. \<open>register\<close> declares no dependency on
  \<open>get_current_user\<close>, so the \<open>Authorization\<close> header of the request is never read.
\<close>

definition post_auth_register ::
  "(string \<Rightarrow> string) \<Rightarrow> usuario_padrao \<Rightarrow> string option \<Rightarrow> UsuarioCreate \<Rightarrow> banco
     \<Rightarrow> (erro + nat \<times> UsuarioResponse) \<times> banco" where
  "post_auth_register get_password_hash pd authorization user db =
     (if valid_UsuarioCreate user then register get_password_hash pd user db
      else (Inl RequestValidationError, db))"

subsection \<open>\<open>login\<close>\<close>

text \<open>
  Modelled from the spec: \<open>authenticate_user\<close> of \<open>auth.py\<close>, which is not among the
  sources. Section 4.1: login verifies the credentials against the credential store,
  the password by comparison with the stored one-way hash; \<open>verify_password\<close> is that
  comparison. The user it returns is the stored record, whose admin and active flags
  read as true when the column is not zero.
\<close>

definition authenticate_user ::
  "(string \<Rightarrow> string \<Rightarrow> bool) \<Rightarrow> banco \<Rightarrow> string \<Rightarrow> string \<Rightarrow> usuario_row option" where
  "authenticate_user verify_password db nome_completo senha =
     (case usuario_por_nome db nome_completo of
        None \<Rightarrow> None
      | Some u \<Rightarrow> if verify_password senha (u_senha_hash u) then Some u else None)"

text \<open>
  Modelled from the spec: \<open>create_access_token\<close> of \<open>auth.py\<close>, which is not among the
  sources. Section 4.1: a token is a signed, time-bounded bearer credential encoding the
  user's identity. The signed encoding is abstracted to the claims it carries: the
  \<open>data\<close> it was given and the expiry, the issue time plus \<open>expires_delta\<close>.
\<close>

record access_token_claims =
  sub :: string
  exp :: int

definition create_access_token :: "int \<Rightarrow> string \<Rightarrow> int \<Rightarrow> access_token_claims" where
  "create_access_token agora data_sub expires_delta = \<lparr> sub = data_sub, exp = agora + expires_delta \<rparr>"

record Token =
  access_token :: access_token_claims
  token_type :: string
  user :: UsuarioResponse

definition credenciais_incorretas :: string where
  "credenciais_incorretas = ''Nome de usu'' @ [char_of (225::nat)] @ ''rio ou senha incorretos''"

definition login ::
  "(string \<Rightarrow> string \<Rightarrow> bool) \<Rightarrow> int \<Rightarrow> int \<Rightarrow> UsuarioLogin \<Rightarrow> banco \<Rightarrow> erro + nat \<times> Token" where
  "login verify_password agora expire_minutes credentials db =
     (case authenticate_user verify_password db (ul_nome_completo credentials) (ul_senha credentials) of
        None \<Rightarrow> Inl (HTTPException 401 credenciais_incorretas)
      | Some u \<Rightarrow>
          (let token = create_access_token agora (str_int (u_id u)) expire_minutes in
           case montar_UsuarioResponse u of
             Inl e \<Rightarrow> Inl e
           | Inr resp \<Rightarrow> Inr (200, \<lparr> access_token = token, token_type = ''bearer'', user = resp \<rparr>)))"

section \<open>Order creation\<close>

record ItemPedidoCreate =
  ic_sabor_id :: int
  ic_quantidade :: int

record PedidoCreate =
  pc_evento_id :: int
  pc_itens :: "ItemPedidoCreate list"

text \<open>\<open>quantidade: int = Field(..., gt=0, le=8)\<close> and
  \<open>itens: List[ItemPedidoCreate] = Field(..., min_items=1)\<close>.\<close>

definition valid_ItemPedidoCreate :: "ItemPedidoCreate \<Rightarrow> bool" where
  "valid_ItemPedidoCreate i = (ic_quantidade i > 0 \<and> ic_quantidade i \<le> 8)"

definition valid_PedidoCreate :: "PedidoCreate \<Rightarrow> bool" where
  "valid_PedidoCreate p = (list_all valid_ItemPedidoCreate (pc_itens p) \<and> length (pc_itens p) \<ge> 1)"

text \<open>The route that takes a \<open>PedidoCreate\<close> body: whatever its handler is, it runs only
  on a body that passed the schema.\<close>

definition post_pedidos ::
  "(PedidoCreate \<Rightarrow> banco \<Rightarrow> (erro + 'r) \<times> banco) \<Rightarrow> PedidoCreate \<Rightarrow> banco \<Rightarrow> (erro + 'r) \<times> banco" where
  "post_pedidos handler pedido db =
     (if valid_PedidoCreate pedido then handler pedido db
      else (Inl RequestValidationError, db))"

text \<open>
  Modelled from the spec: the order-creation handler of \<open>routes_pedidos.py\<close>, which is
  not among the sources. Sections 2 and 4.4: the event must exist and be inside its
  open/deadline window; each referenced flavor must exist and be active; the line item
  takes the flavor's current price per slice as its unit price and quantity times that
  price as its subtotal; the order total is the sum of the line subtotals; the shipping
  value is an input. The keys the database assigns, the shipping value and the initial
  status are the parameters \<open>pp\<close>.
\<close>

record pedido_padrao =
  pp_id :: int
  pp_item_id :: "nat \<Rightarrow> int"
  pp_frete :: rat
  pp_status :: string

definition sabor_ativo :: "banco \<Rightarrow> int \<Rightarrow> sabor_row option" where
  "sabor_ativo db sid = find (\<lambda>s. s_id s = sid \<and> s_ativo s \<noteq> 0) (sabores db)"

definition montar_item :: "banco \<Rightarrow> pedido_padrao \<Rightarrow> nat \<times> ItemPedidoCreate \<Rightarrow> item_pedido_row option" where
  "montar_item db pp ki =
     (case sabor_ativo db (ic_sabor_id (snd ki)) of
        None \<Rightarrow> None
      | Some s \<Rightarrow>
          Some \<lparr> ip_id = pp_item_id pp (fst ki), ip_pedido_id = pp_id pp,
                 ip_sabor_id = ic_sabor_id (snd ki), ip_quantidade = ic_quantidade (snd ki),
                 ip_preco_unitario = s_preco_pedaco s,
                 ip_subtotal = of_int (ic_quantidade (snd ki)) * s_preco_pedaco s \<rparr>)"

definition sabor_invalido :: string where
  "sabor_invalido = ''Sabor inexistente ou inativo''"

definition evento_fechado :: string where
  "evento_fechado = ''Evento fechado para pedidos''"

definition criar_pedido ::
  "pedido_padrao \<Rightarrow> int \<Rightarrow> int \<Rightarrow> PedidoCreate \<Rightarrow> banco \<Rightarrow> (erro + nat \<times> pedido_row) \<times> banco" where
  "criar_pedido pp agora usuario_id pedido db =
     (case evento_por_id db (pc_evento_id pedido) of
        None \<Rightarrow> (Inl (HTTPException 404 nao_encontrado), db)
      | Some ev \<Rightarrow>
          if \<not> evento_aberto agora ev then (Inl (HTTPException 400 evento_fechado), db)
          else
          (let linhas = map (montar_item db pp) (enumerate 0 (pc_itens pedido)) in
           if list_ex (\<lambda>l. l = None) linhas then (Inl (HTTPException 400 sabor_invalido), db)
           else
             (let novos = List.map_filter (\<lambda>l. l) linhas;
                  novo = \<lparr> p_id = pp_id pp, p_evento_id = pc_evento_id pedido,
                           p_usuario_id = usuario_id,
                           p_valor_total = sum_list (map ip_subtotal novos),
                           p_valor_frete = pp_frete pp, p_status = pp_status pp \<rparr>
              in (Inr (201, novo),
                  db\<lparr> pedidos := pedidos db @ [novo],
                      itens_pedido := itens_pedido db @ novos \<rparr>))))"

text \<open>The invariant of the data model: every stored line item has 1 to 8 slices.\<close>

definition quantidades_ok :: "banco \<Rightarrow> bool" where
  "quantidades_ok db = list_all (\<lambda>i. 1 \<le> ip_quantidade i \<and> ip_quantidade i \<le> 8) (itens_pedido db)"

section \<open>Example databases\<close>

text \<open>
  The example of section 8 of the specification: one event, order 10 of user 7 with
  5 slices of flavor 1 and 3 of flavor 2, order 11 of user 8 with 4 slices of flavor 1.
\<close>

definition evento_junho :: evento_row where
  "evento_junho = \<lparr> e_id = 1, e_data_evento = 19875, e_status = ''ABERTO'',
                    e_data_limite = 1717631940, e_data_criacao = None \<rparr>"

definition banco_exemplo :: banco where
  "banco_exemplo =
     \<lparr> usuarios = [],
       sabores = [\<lparr> s_id = 1, s_nome = ''Calabresa'', s_preco_pedaco = 2, s_ativo = 1 \<rparr>,
                  \<lparr> s_id = 2, s_nome = ''Mussarela'', s_preco_pedaco = 3, s_ativo = 1 \<rparr>],
       eventos = [evento_junho],
       pedidos = [\<lparr> p_id = 10, p_evento_id = 1, p_usuario_id = 7, p_valor_total = 19,
                    p_valor_frete = 1, p_status = ''PENDENTE'' \<rparr>,
                  \<lparr> p_id = 11, p_evento_id = 1, p_usuario_id = 8, p_valor_total = 8,
                    p_valor_frete = 1, p_status = ''PENDENTE'' \<rparr>],
       itens_pedido =
         [\<lparr> ip_id = 100, ip_pedido_id = 10, ip_sabor_id = 1, ip_quantidade = 5,
            ip_preco_unitario = 2, ip_subtotal = 10 \<rparr>,
          \<lparr> ip_id = 101, ip_pedido_id = 10, ip_sabor_id = 2, ip_quantidade = 3,
            ip_preco_unitario = 3, ip_subtotal = 9 \<rparr>,
          \<lparr> ip_id = 102, ip_pedido_id = 11, ip_sabor_id = 1, ip_quantidade = 4,
            ip_preco_unitario = 2, ip_subtotal = 8 \<rparr>] \<rparr>"

text \<open>The same event before any order was placed.\<close>

definition banco_sem_pedidos :: banco where
  "banco_sem_pedidos = banco_exemplo \<lparr> pedidos := [], itens_pedido := [] \<rparr>"

text \<open>
  Four events at time 1000: event 2 is open and dated 19905; event 3 is open but dated
  earlier; event 4 is dated later but closed; event 5 is dated latest and open, but its
  deadline has passed. Event 3 has one order, of user 7.
\<close>

definition banco_eventos :: banco where
  "banco_eventos =
     \<lparr> usuarios = [],
       sabores = [],
       eventos =
         [\<lparr> e_id = 3, e_data_evento = 19875, e_status = ''ABERTO'', e_data_limite = 2000,
            e_data_criacao = Some 10 \<rparr>,
          \<lparr> e_id = 2, e_data_evento = 19905, e_status = ''ABERTO'', e_data_limite = 1500,
            e_data_criacao = Some 20 \<rparr>,
          \<lparr> e_id = 4, e_data_evento = 19935, e_status = ''FECHADO'', e_data_limite = 3000,
            e_data_criacao = Some 30 \<rparr>,
          \<lparr> e_id = 5, e_data_evento = 19965, e_status = ''ABERTO'', e_data_limite = 900,
            e_data_criacao = Some 40 \<rparr>],
       pedidos = [\<lparr> p_id = 10, p_evento_id = 3, p_usuario_id = 7, p_valor_total = 6,
                    p_valor_frete = 1, p_status = ''PENDENTE'' \<rparr>],
       itens_pedido = [] \<rparr>"

text \<open>A credential store with one user, whose password hash is the reversed password
  under the hashing scheme of the examples.\<close>

definition hash_exemplo :: "string \<Rightarrow> string" where
  "hash_exemplo senha = rev senha"

definition verify_exemplo :: "string \<Rightarrow> string \<Rightarrow> bool" where
  "verify_exemplo senha h = (hash_exemplo senha = h)"

definition banco_usuarios :: banco where
  "banco_usuarios =
     \<lparr> usuarios = [\<lparr> u_id = 42, u_nome_completo = ''Ana Lima'', u_senha_hash = ''654321'',
                     u_setor = ''TI'', u_is_admin = 0, u_ativo = 1, u_data_cadastro = Some 5 \<rparr>],
       sabores = [], eventos = [], pedidos = [], itens_pedido = [] \<rparr>"

definition padrao_exemplo :: usuario_padrao where
  "padrao_exemplo = \<lparr> pd_id = 43, pd_ativo = 1, pd_data_cadastro = Some 6 \<rparr>"

definition pedido_padrao_exemplo :: pedido_padrao where
  "pedido_padrao_exemplo = \<lparr> pp_id = 12, pp_item_id = (\<lambda>k. 200 + int k), pp_frete = 1,
                              pp_status = ''PENDENTE'' \<rparr>"

section \<open>Properties of the event summary\<close>

lemma sum_filter_disj:
  fixes f :: "'a \<Rightarrow> int"
  assumes "\<And>x. x \<in> set xs \<Longrightarrow> \<not> (P x \<and> Q x)"
  shows "sum_list (map f (filter (\<lambda>x. P x \<or> Q x) xs)) =
         sum_list (map f (filter P xs)) + sum_list (map f (filter Q xs))"
  using assms by (induction xs) auto

lemma map_filter_append:
  "List.map_filter f (xs @ ys) = List.map_filter f xs @ List.map_filter f ys"
  by (simp add: List.map_filter_def)

lemma left_join_Nil: "left_join [] items = []"
  by (simp add: left_join_def)

lemma left_join_Cons: "left_join (p # ps) items = join_block p items @ left_join ps items"
  by (simp add: left_join_def)

lemma join_block_fst: "x \<in> set (join_block p items) \<Longrightarrow> fst x = p"
  by (auto simp: join_block_def Let_def split: if_splits)

text \<open>The WHERE clause keeps or drops the joined rows of an order as a block.\<close>

lemma join_block_filter:
  "filter (\<lambda>(q, i). p_evento_id q = ev) (join_block p items) =
     (if p_evento_id p = ev then join_block p items else [])"
proof -
  have "(case x of (q, i) \<Rightarrow> p_evento_id q = ev) = (p_evento_id p = ev)"
    if "x \<in> set (join_block p items)" for x
    using join_block_fst [OF that] by (cases x) simp
  then have "filter (\<lambda>(q, i). p_evento_id q = ev) (join_block p items) =
     filter (\<lambda>x. p_evento_id p = ev) (join_block p items)"
    by (intro filter_cong) auto
  then show ?thesis by simp
qed

text \<open>The non-NULL quantities among the joined rows of an order are those of its line
  items: the row of an order without items carries a NULL.\<close>

lemma join_block_quantities:
  "List.map_filter (\<lambda>v. v) (map (\<lambda>(q, i). map_option ip_quantidade i) (join_block p items)) =
     map ip_quantidade (filter (\<lambda>i. p_id p = ip_pedido_id i) items)"
  by (simp add: join_block_def Let_def List.map_filter_def comp_def)

lemma stats_quantities:
  "List.map_filter (\<lambda>v. v) (map (\<lambda>(p, i). map_option ip_quantidade i)
      (filter (\<lambda>(p, i). p_evento_id p = ev) (left_join ps items))) =
   concat (map (\<lambda>p. map ip_quantidade (filter (\<lambda>i. p_id p = ip_pedido_id i) items))
      (filter (\<lambda>p. p_evento_id p = ev) ps))"
proof (induction ps)
  case Nil
  show ?case by (simp add: left_join_Nil List.map_filter_def)
next
  case (Cons p ps)
  then show ?case
    by (simp add: left_join_Cons join_block_filter map_filter_append join_block_quantities)
qed

text \<open>With \<open>id\<close> the key of \<open>pedidos\<close>, a line item is joined to one order at most, so
  the slices summed order by order are the slices of the event's line items.\<close>

lemma sum_por_pedido:
  assumes "distinct (map p_id ps)"
  shows "sum_list (concat (map (\<lambda>p. map ip_quantidade (filter (\<lambda>i. p_id p = ip_pedido_id i) items))
      (filter (\<lambda>p. p_evento_id p = ev) ps))) =
    sum_list (map ip_quantidade
      (filter (\<lambda>i. list_ex (\<lambda>p. p_id p = ip_pedido_id i \<and> p_evento_id p = ev) ps) items))"
  using assms
proof (induction ps)
  case Nil
  show ?case by simp
next
  case (Cons p ps)
  then have IH: "sum_list (concat (map (\<lambda>p. map ip_quantidade (filter (\<lambda>i. p_id p = ip_pedido_id i) items))
      (filter (\<lambda>p. p_evento_id p = ev) ps))) =
    sum_list (map ip_quantidade
      (filter (\<lambda>i. list_ex (\<lambda>p. p_id p = ip_pedido_id i \<and> p_evento_id p = ev) ps) items))"
    and fresh: "p_id p \<notin> p_id ` set ps" by auto
  show ?case
  proof (cases "p_evento_id p = ev")
    case True
    have disj: "\<not> (p_id p = ip_pedido_id i \<and>
         list_ex (\<lambda>p. p_id p = ip_pedido_id i \<and> p_evento_id p = ev) ps)" for i
    proof
      assume "p_id p = ip_pedido_id i \<and>
         list_ex (\<lambda>p. p_id p = ip_pedido_id i \<and> p_evento_id p = ev) ps"
      then obtain q where "q \<in> set ps" "p_id q = p_id p" by (auto simp: list_ex_iff)
      then have "p_id p \<in> p_id ` set ps" by (metis imageI)
      with fresh show False by blast
    qed
    have "sum_list (map ip_quantidade
      (filter (\<lambda>i. list_ex (\<lambda>p. p_id p = ip_pedido_id i \<and> p_evento_id p = ev) (p # ps)) items))
      = sum_list (map ip_quantidade (filter (\<lambda>i. p_id p = ip_pedido_id i \<or>
           list_ex (\<lambda>p. p_id p = ip_pedido_id i \<and> p_evento_id p = ev) ps) items))"
      using True by simp
    also have "\<dots> = sum_list (map ip_quantidade (filter (\<lambda>i. p_id p = ip_pedido_id i) items)) +
       sum_list (map ip_quantidade (filter (\<lambda>i. list_ex (\<lambda>p. p_id p = ip_pedido_id i \<and> p_evento_id p = ev) ps) items))"
      by (rule sum_filter_disj) (use disj in blast)
    finally show ?thesis using True IH by simp
  next
    case False
    then show ?thesis using IH by simp
  qed
qed

lemma truthy_sql_sum: "truthy_or_zero (sql_sum col) = sum_list (List.map_filter (\<lambda>v. v) col)"
  by (auto simp: truthy_or_zero_def sql_sum_def split: list.splits)

lemma total_pedacos_eq:
  assumes "distinct (map p_id (pedidos db))"
  shows "truthy_or_zero (snd (snd (snd (stats_query db ev)))) = spec_total_slices db ev"
  using sum_por_pedido [OF assms, of "itens_pedido db" ev]
  by (simp add: stats_query_def Let_def truthy_sql_sum stats_rows_def stats_quantities
      spec_total_slices_def itens_do_evento_def)

lemma stats_rows_empty:
  assumes "pedidos_do_evento db ev = []"
  shows "stats_rows db ev = []"
proof -
  have "filter (\<lambda>(p, i). p_evento_id p = ev) (left_join ps items) = []"
    if "filter (\<lambda>p. p_evento_id p = ev) ps = []" for ps items
    using that
    by (induction ps) (auto simp: left_join_Nil left_join_Cons join_block_filter split: if_splits)
  with assms show ?thesis by (simp add: stats_rows_def pedidos_do_evento_def)
qed

lemma stats_query_empty:
  assumes "pedidos_do_evento db ev = []"
  shows "stats_query db ev = (0, 0, None, None)"
  by (simp add: stats_query_def stats_rows_empty [OF assms] sql_count_def sql_count_distinct_def
      sql_sum_def List.map_filter_def)

text \<open>
  C1. The summary is to report the number of orders of the event, each counted once, and
  the sum of total plus shipping over those orders, each contributing once. The handler
  computes \<open>COUNT(p.id)\<close> and \<open>SUM(p.valor_total + p.valor_frete)\<close> over the rows of the
  join with the line items, so an order with k line items is counted k times. On the
  example of the specification (two orders, the first with two line items) the handler
  reports 3 orders and a value of 49, where the event has 2 orders worth 29.
\<close>

theorem resumo_conta_linhas_da_juncao:
  "obter_resumo_evento banco_exemplo 1 =
     Inr (200, \<lparr> evento = evento_response evento_junho, total_participantes = 2,
                 total_pedidos = 3, total_pizzas = 1, valor_total = 49 \<rparr>)
   \<and> spec_participant_count banco_exemplo 1 = 2
   \<and> spec_order_count banco_exemplo 1 = 2
   \<and> spec_total_value banco_exemplo 1 = 29"
  by code_simp

text \<open>
  C2. For an event that exists, with \<open>id\<close> the key of the orders table, the summary
  returns as total_pizzas the floor of S / 8, where S is the sum of the slices of all
  line items of the event's orders, whatever their flavors; and when the event has no
  order, participants, orders, pizzas and value are all zero.
\<close>

theorem resumo_total_pizzas:
  assumes "distinct (map p_id (pedidos db))"
    and "evento_por_id db evento_id = Some e"
  shows "\<exists>r. obter_resumo_evento db evento_id = Inr (200, r)
          \<and> total_pizzas r = spec_total_slices db evento_id div 8
          \<and> (pedidos_do_evento db evento_id = [] \<longrightarrow>
               total_participantes r = 0 \<and> total_pedidos r = 0 \<and> total_pizzas r = 0 \<and> valor_total r = 0)"
proof -
  obtain r0 r1 r2 r3 where q: "stats_query db evento_id = (r0, r1, r2, r3)"
    by (metis prod_cases4)
  define r where "r = \<lparr> evento = evento_response e,
                    total_participantes = truthy_or_zero (Some r0),
                    total_pedidos = truthy_or_zero (Some r1),
                    total_pizzas = truthy_or_zero r3 div 8,
                    valor_total = truthy_or_zero r2 \<rparr>"
  have ret: "obter_resumo_evento db evento_id = Inr (200, r)"
    by (simp add: obter_resumo_evento_def assms(2) q r_def)
  have "truthy_or_zero r3 = spec_total_slices db evento_id"
    using total_pedacos_eq [OF assms(1), of evento_id] by (simp add: q)
  then have pizzas: "total_pizzas r = spec_total_slices db evento_id div 8"
    by (simp add: r_def)
  have zero: "total_participantes r = 0 \<and> total_pedidos r = 0 \<and> total_pizzas r = 0 \<and> valor_total r = 0"
    if "pedidos_do_evento db evento_id = []"
    using stats_query_empty [OF that] q by (simp add: r_def truthy_or_zero_def)
  from ret pizzas zero show ?thesis by blast
qed

theorem resumo_total_pizzas_witness:
  "(\<exists>r. obter_resumo_evento banco_exemplo 1 = Inr (200, r) \<and> total_pizzas r = 12 div 8)
   \<and> (\<exists>r. obter_resumo_evento banco_sem_pedidos 1 = Inr (200, r)
          \<and> total_participantes r = 0 \<and> total_pedidos r = 0 \<and> total_pizzas r = 0 \<and> valor_total r = 0)"
proof -
  have d1: "distinct (map p_id (pedidos banco_exemplo))" by code_simp
  have e1: "evento_por_id banco_exemplo 1 = Some evento_junho" by code_simp
  have s1: "spec_total_slices banco_exemplo 1 = 12" by code_simp
  have d2: "distinct (map p_id (pedidos banco_sem_pedidos))" by code_simp
  have e2: "evento_por_id banco_sem_pedidos 1 = Some evento_junho" by code_simp
  have n2: "pedidos_do_evento banco_sem_pedidos 1 = []" by code_simp
  show ?thesis
    using resumo_total_pizzas [OF d1 e1] resumo_total_pizzas [OF d2 e2] s1 n2 by auto
qed

section \<open>Properties of the event lifecycle\<close>

lemma ativo_rows_set: "set (ativo_rows agora db) = {e \<in> set (eventos db). evento_aberto agora e}"
  by (simp add: ativo_rows_def)

text \<open>The first row of the ordered result has the latest date of all rows.\<close>

lemma ativo_rows_head:
  assumes "ativo_rows agora db = result # rest"
    and "e' \<in> set (eventos db)" and "evento_aberto agora e'"
  shows "e_data_evento e' \<le> e_data_evento result"
proof -
  have "sorted (map (\<lambda>e. - e_data_evento e) (ativo_rows agora db))"
    by (simp add: ativo_rows_def)
  then have "\<forall>x \<in> set rest. - e_data_evento result \<le> - e_data_evento x"
    by (simp add: assms(1))
  moreover have "e' \<in> set (ativo_rows agora db)"
    using assms(2,3) by (simp add: ativo_rows_set)
  ultimately show ?thesis
    using assms(1) by auto
qed

text \<open>
  C3. When no stored event has status ABERTO and a deadline after the current time,
  getActive fails with 404. When some event has, it returns one event: a stored one, with
  status ABERTO and its deadline still ahead, and no qualifying event has a later event
  date.
\<close>

theorem evento_ativo_correto:
  "((\<forall>e \<in> set (eventos db). \<not> evento_aberto agora e) \<longrightarrow>
      obter_evento_ativo agora db = Inl (HTTPException 404 sem_evento_ativo))
   \<and> ((\<exists>e \<in> set (eventos db). evento_aberto agora e) \<longrightarrow>
      (\<exists>e \<in> set (eventos db).
          obter_evento_ativo agora db = Inr (200, evento_response e)
          \<and> status (evento_response e) = ''ABERTO''
          \<and> data_limite (evento_response e) > agora
          \<and> (\<forall>e' \<in> set (eventos db). evento_aberto agora e' \<longrightarrow>
                data_evento (evento_response e') \<le> data_evento (evento_response e))))"
proof (intro conjI impI)
  assume "\<forall>e \<in> set (eventos db). \<not> evento_aberto agora e"
  then have "set (ativo_rows agora db) = {}"
    by (auto simp: ativo_rows_set)
  then show "obter_evento_ativo agora db = Inl (HTTPException 404 sem_evento_ativo)"
    by (simp add: obter_evento_ativo_def)
next
  assume "\<exists>e \<in> set (eventos db). evento_aberto agora e"
  then have "set (ativo_rows agora db) \<noteq> {}"
    by (auto simp: ativo_rows_set)
  then obtain result rest where rows: "ativo_rows agora db = result # rest"
    by (cases "ativo_rows agora db") auto
  then have "result \<in> set (ativo_rows agora db)" by simp
  then have mem: "result \<in> set (eventos db)" and ab: "evento_aberto agora result"
    by (auto simp: ativo_rows_set)
  have ret: "obter_evento_ativo agora db = Inr (200, evento_response result)"
    by (simp add: obter_evento_ativo_def rows)
  have latest: "\<forall>e' \<in> set (eventos db). evento_aberto agora e' \<longrightarrow>
       data_evento (evento_response e') \<le> data_evento (evento_response result)"
    using ativo_rows_head [OF rows] by (simp add: evento_response_def)
  from ab have "status (evento_response result) = ''ABERTO''"
    and "data_limite (evento_response result) > agora"
    by (simp_all add: evento_aberto_def evento_response_def)
  with mem ret latest show "\<exists>e \<in> set (eventos db).
          obter_evento_ativo agora db = Inr (200, evento_response e)
          \<and> status (evento_response e) = ''ABERTO''
          \<and> data_limite (evento_response e) > agora
          \<and> (\<forall>e' \<in> set (eventos db). evento_aberto agora e' \<longrightarrow>
                data_evento (evento_response e') \<le> data_evento (evento_response e))"
    by blast
qed

theorem evento_ativo_correto_witness:
  "obter_evento_ativo 1000 banco_eventos =
     Inr (200, \<lparr> data_evento = 19905, data_limite = 1500, nome = None, id = 2,
                 status = ''ABERTO'', data_criacao = Some 20 \<rparr>)
   \<and> obter_evento_ativo 5000 banco_eventos = Inl (HTTPException 404 sem_evento_ativo)"
proof -
  have none: "\<forall>e \<in> set (eventos banco_eventos). \<not> evento_aberto 5000 e"
    by (simp add: banco_eventos_def evento_aberto_def)
  have some: "\<exists>e \<in> set (eventos banco_eventos). evento_aberto 1000 e"
    by (simp add: banco_eventos_def evento_aberto_def)
  obtain e where e: "e \<in> set (eventos banco_eventos)"
      "obter_evento_ativo 1000 banco_eventos = Inr (200, evento_response e)"
      "status (evento_response e) = ''ABERTO''" "data_limite (evento_response e) > 1000"
      "\<forall>e' \<in> set (eventos banco_eventos). evento_aberto 1000 e' \<longrightarrow>
          data_evento (evento_response e') \<le> data_evento (evento_response e)"
    using evento_ativo_correto [of banco_eventos 1000] some by blast
  from e(1,3,4,5) have "e_id e = 2"
    by (auto simp: banco_eventos_def evento_response_def evento_aberto_def)
  with e(1) have "evento_response e = \<lparr> data_evento = 19905, data_limite = 1500, nome = None, id = 2,
                 status = ''ABERTO'', data_criacao = Some 20 \<rparr>"
    by (auto simp: banco_eventos_def evento_response_def)
  with e(2) evento_ativo_correto [of banco_eventos 5000] none show ?thesis
    by simp
qed

lemma find_None_iff': "find P xs = None \<longleftrightarrow> (\<forall>x \<in> set xs. \<not> P x)"
  by (induction xs) auto

lemma find_append_new:
  assumes "\<forall>x \<in> set xs. \<not> P x" and "P y"
  shows "find P (xs @ [y]) = Some y"
  using assms by (induction xs) auto

text \<open>
  C5. Creating an event on a date that some stored event already has fails with 400 and
  leaves the database as it was. On a free date it succeeds with 201: the database gains
  one row, with the date and deadline of the request and status ABERTO, and that row is
  the response. The request has no field that could set another status.
\<close>

theorem criar_evento_correto:
  "((\<exists>e \<in> set (eventos db). e_data_evento e = ec_data_evento ev) \<longrightarrow>
      criar_evento novo_id criado ev db = (Inl (HTTPException 400 ja_existe_evento), db))
   \<and> ((\<forall>e \<in> set (eventos db). e_data_evento e \<noteq> ec_data_evento ev) \<longrightarrow>
      (\<exists>row. criar_evento novo_id criado ev db =
                (Inr (201, evento_response row), db\<lparr> eventos := eventos db @ [row] \<rparr>)
            \<and> e_status row = ''ABERTO'' \<and> status (evento_response row) = ''ABERTO''
            \<and> e_data_evento row = ec_data_evento ev
            \<and> e_data_limite row = ec_data_limite ev))"
proof (intro conjI impI)
  assume "\<exists>e \<in> set (eventos db). e_data_evento e = ec_data_evento ev"
  then have "evento_por_data db (ec_data_evento ev) \<noteq> None"
    by (simp add: evento_por_data_def find_None_iff')
  then show "criar_evento novo_id criado ev db = (Inl (HTTPException 400 ja_existe_evento), db)"
    by (auto simp: criar_evento_def)
next
  assume free: "\<forall>e \<in> set (eventos db). e_data_evento e \<noteq> ec_data_evento ev"
  define row where "row = \<lparr> e_id = novo_id, e_data_evento = ec_data_evento ev,
      e_status = ''ABERTO'', e_data_limite = ec_data_limite ev, e_data_criacao = criado \<rparr>"
  have ins: "insert_evento novo_id criado ev db = db\<lparr> eventos := eventos db @ [row] \<rparr>"
    by (simp add: insert_evento_def row_def)
  have before: "evento_por_data db (ec_data_evento ev) = None"
    using free by (simp add: evento_por_data_def find_None_iff')
  have after: "evento_por_data (db\<lparr> eventos := eventos db @ [row] \<rparr>) (ec_data_evento ev) = Some row"
    unfolding evento_por_data_def using free
    by (simp add: find_append_new row_def)
  have "criar_evento novo_id criado ev db =
          (Inr (201, evento_response row), db\<lparr> eventos := eventos db @ [row] \<rparr>)"
    by (simp add: criar_evento_def before ins after)
  moreover have "e_status row = ''ABERTO''" "status (evento_response row) = ''ABERTO''"
    "e_data_evento row = ec_data_evento ev" "e_data_limite row = ec_data_limite ev"
    by (simp_all add: row_def evento_response_def)
  ultimately show "\<exists>row. criar_evento novo_id criado ev db =
                (Inr (201, evento_response row), db\<lparr> eventos := eventos db @ [row] \<rparr>)
            \<and> e_status row = ''ABERTO'' \<and> status (evento_response row) = ''ABERTO''
            \<and> e_data_evento row = ec_data_evento ev
            \<and> e_data_limite row = ec_data_limite ev"
    by blast
qed

theorem criar_evento_correto_witness:
  "criar_evento 6 (Some 50) \<lparr> ec_data_evento = 19905, ec_data_limite = 7, ec_nome = None \<rparr> banco_eventos
     = (Inl (HTTPException 400 ja_existe_evento), banco_eventos)
   \<and> (\<exists>row. fst (criar_evento 6 (Some 50)
                \<lparr> ec_data_evento = 20000, ec_data_limite = 7, ec_nome = Some ''FECHADO'' \<rparr> banco_eventos)
              = Inr (201, evento_response row)
            \<and> status (evento_response row) = ''ABERTO'')"
proof -
  have taken: "\<exists>e \<in> set (eventos banco_eventos).
      e_data_evento e = ec_data_evento \<lparr> ec_data_evento = 19905, ec_data_limite = 7, ec_nome = None \<rparr>"
    by (simp add: banco_eventos_def)
  have free: "\<forall>e \<in> set (eventos banco_eventos).
      e_data_evento e \<noteq> ec_data_evento \<lparr> ec_data_evento = 20000, ec_data_limite = 7, ec_nome = Some ''FECHADO'' \<rparr>"
    by (simp add: banco_eventos_def)
  show ?thesis
    using criar_evento_correto [of banco_eventos "\<lparr> ec_data_evento = 19905, ec_data_limite = 7, ec_nome = None \<rparr>" 6 "Some 50"]
      criar_evento_correto [of banco_eventos "\<lparr> ec_data_evento = 20000, ec_data_limite = 7, ec_nome = Some ''FECHADO'' \<rparr>" 6 "Some 50"]
      taken free
    by (metis fst_conv)
qed

lemma digit_value_digit_char:
  assumes "d < 10"
  shows "digit_value (digit_char d) = d"
proof -
  from assms have "d = 0 \<or> d = 1 \<or> d = 2 \<or> d = 3 \<or> d = 4 \<or> d = 5 \<or> d = 6 \<or> d = 7 \<or> d = 8 \<or> d = 9"
    by arith
  then show ?thesis
    by (elim disjE) (simp_all add: digit_char_def digit_value_def)
qed

lemma valor_decimal_snoc: "valor_decimal (s @ [c]) = 10 * valor_decimal s + digit_value c"
  by (simp add: valor_decimal_def)

text \<open>The digits \<open>str_nat\<close> writes read back as the number written.\<close>

lemma valor_decimal_str_nat: "valor_decimal (str_nat n) = n"
proof (induction n rule: str_nat.induct)
  case (1 n)
  show ?case
  proof (cases "n < 10")
    case True
    then show ?thesis
      by (simp add: str_nat.simps [of n] valor_decimal_def digit_value_digit_char)
  next
    case False
    then have "valor_decimal (str_nat n) =
        10 * valor_decimal (str_nat (n div 10)) + digit_value (digit_char (n mod 10))"
      by (simp add: str_nat.simps [of n] valor_decimal_snoc)
    also have "\<dots> = 10 * (n div 10) + n mod 10"
      using "1.IH" [OF False] by (simp add: digit_value_digit_char)
    finally show ?thesis by simp
  qed
qed




lemma fold_montar_updates: "fold aplicar (montar_updates u) r = spec_partial_update u r"
  by (cases "eu_status u"; cases "eu_data_limite u")
     (simp_all add: montar_updates_def spec_partial_update_def)

lemma montar_updates_Nil: "montar_updates u = [] \<longleftrightarrow> eu_status u = None \<and> eu_data_limite u = None"
  by (cases "eu_status u"; cases "eu_data_limite u") (simp_all add: montar_updates_def)

lemma find_map_same_test:
  assumes "\<And>x. P (f x) = P x"
  shows "find P (map f xs) = map_option f (find P xs)"
  by (induction xs) (simp_all add: assms)

text \<open>
  C6. A body whose status is provided and is not one of ABERTO, FECHADO, FINALIZADO is
  rejected by the schema. For a body that passes: if no event has the id, the update
  fails with 404; if the event exists and neither status nor deadline is provided, it
  fails with 400; in all three cases the database is as it was. If the event exists and
  a field is provided, the update succeeds: the rows with the id take the provided
  fields and keep key, event date, creation time and each omitted field, all other rows
  and tables stay as they were, and the response is the updated event.
\<close>

theorem atualizar_evento_correto:
  "(valid_EventoUpdate u \<longleftrightarrow>
      (\<forall>s. eu_status u = Some s \<longrightarrow> s \<in> {''ABERTO'', ''FECHADO'', ''FINALIZADO''}))
   \<and> (\<not> valid_EventoUpdate u \<longrightarrow> put_evento evento_id u db = (Inl RequestValidationError, db))
   \<and> (valid_EventoUpdate u \<and> evento_por_id db evento_id = None \<longrightarrow>
        put_evento evento_id u db = (Inl (HTTPException 404 nao_encontrado), db))
   \<and> (valid_EventoUpdate u \<and> evento_por_id db evento_id = Some e
        \<and> eu_status u = None \<and> eu_data_limite u = None \<longrightarrow>
        put_evento evento_id u db = (Inl (HTTPException 400 nenhum_campo), db))
   \<and> (valid_EventoUpdate u \<and> evento_por_id db evento_id = Some e
        \<and> (eu_status u \<noteq> None \<or> eu_data_limite u \<noteq> None) \<longrightarrow>
        put_evento evento_id u db =
          (Inr (200, evento_response (spec_partial_update u e)),
           db\<lparr> eventos := map (\<lambda>r. if e_id r = evento_id then spec_partial_update u r else r)
                             (eventos db) \<rparr>)
        \<and> id (evento_response (spec_partial_update u e)) = e_id e
        \<and> data_evento (evento_response (spec_partial_update u e)) = e_data_evento e
        \<and> data_criacao (evento_response (spec_partial_update u e)) = e_data_criacao e
        \<and> status (evento_response (spec_partial_update u e)) =
            (case eu_status u of None \<Rightarrow> e_status e | Some s \<Rightarrow> s)
        \<and> data_limite (evento_response (spec_partial_update u e)) =
            (case eu_data_limite u of None \<Rightarrow> e_data_limite e | Some d \<Rightarrow> d))"
proof (intro conjI impI)
  show "valid_EventoUpdate u \<longleftrightarrow>
      (\<forall>s. eu_status u = Some s \<longrightarrow> s \<in> {''ABERTO'', ''FECHADO'', ''FINALIZADO''})"
    by (cases "eu_status u") (auto simp: valid_EventoUpdate_def)
next
  assume "\<not> valid_EventoUpdate u"
  then show "put_evento evento_id u db = (Inl RequestValidationError, db)"
    by (simp add: put_evento_def)
next
  assume "valid_EventoUpdate u \<and> evento_por_id db evento_id = None"
  then show "put_evento evento_id u db = (Inl (HTTPException 404 nao_encontrado), db)"
    by (simp add: put_evento_def atualizar_evento_def)
next
  assume "valid_EventoUpdate u \<and> evento_por_id db evento_id = Some e
        \<and> eu_status u = None \<and> eu_data_limite u = None"
  then show "put_evento evento_id u db = (Inl (HTTPException 400 nenhum_campo), db)"
    by (simp add: put_evento_def atualizar_evento_def montar_updates_def)
next
  assume a: "valid_EventoUpdate u \<and> evento_por_id db evento_id = Some e
        \<and> (eu_status u \<noteq> None \<or> eu_data_limite u \<noteq> None)"
  then have ne: "montar_updates u \<noteq> []"
    by (simp add: montar_updates_Nil)
  have upd: "update_eventos (montar_updates u) evento_id db =
      db\<lparr> eventos := map (\<lambda>r. if e_id r = evento_id then spec_partial_update u r else r) (eventos db) \<rparr>"
    by (simp add: update_eventos_def fold_montar_updates)
  have keep: "(e_id (if e_id r = evento_id then spec_partial_update u r else r) = evento_id)
      = (e_id r = evento_id)" for r
    by (simp add: spec_partial_update_def)
  have "find (\<lambda>r. e_id r = evento_id)
          (map (\<lambda>r. if e_id r = evento_id then spec_partial_update u r else r) (eventos db))
        = map_option (\<lambda>r. if e_id r = evento_id then spec_partial_update u r else r)
            (find (\<lambda>r. e_id r = evento_id) (eventos db))"
    by (rule find_map_same_test) (rule keep)
  moreover from a have fe: "find (\<lambda>r. e_id r = evento_id) (eventos db) = Some e"
    by (simp add: evento_por_id_def)
  moreover from fe have "e_id e = evento_id"
    by (auto simp: find_Some_iff)
  ultimately have sel: "evento_por_id (update_eventos (montar_updates u) evento_id db) evento_id
      = Some (spec_partial_update u e)"
    by (simp add: upd evento_por_id_def)
  from a ne sel show "put_evento evento_id u db =
          (Inr (200, evento_response (spec_partial_update u e)),
           db\<lparr> eventos := map (\<lambda>r. if e_id r = evento_id then spec_partial_update u r else r)
                             (eventos db) \<rparr>)"
    by (simp add: put_evento_def atualizar_evento_def Let_def upd)
qed (simp_all add: evento_response_def spec_partial_update_def)

theorem atualizar_evento_correto_witness:
  "fst (put_evento 2 \<lparr> eu_status = Some ''FECHADO'', eu_data_limite = None \<rparr> banco_eventos) =
     Inr (200, \<lparr> data_evento = 19905, data_limite = 1500, nome = None, id = 2,
                 status = ''FECHADO'', data_criacao = Some 20 \<rparr>)
   \<and> put_evento 2 \<lparr> eu_status = None, eu_data_limite = None \<rparr> banco_eventos =
       (Inl (HTTPException 400 nenhum_campo), banco_eventos)
   \<and> put_evento 9 \<lparr> eu_status = Some ''ABERTO'', eu_data_limite = None \<rparr> banco_eventos =
       (Inl (HTTPException 404 nao_encontrado), banco_eventos)
   \<and> put_evento 2 \<lparr> eu_status = Some ''ABERTA'', eu_data_limite = None \<rparr> banco_eventos =
       (Inl RequestValidationError, banco_eventos)"
proof -
  define e2 where "e2 = \<lparr> e_id = 2, e_data_evento = 19905, e_status = ''ABERTO'',
      e_data_limite = 1500, e_data_criacao = Some 20 \<rparr>"
  have f2: "evento_por_id banco_eventos 2 = Some e2"
    by (simp add: evento_por_id_def banco_eventos_def e2_def)
  have f9: "evento_por_id banco_eventos 9 = None"
    by (simp add: evento_por_id_def banco_eventos_def)
  have v1: "valid_EventoUpdate \<lparr> eu_status = Some ''FECHADO'', eu_data_limite = None \<rparr>"
    and v2: "valid_EventoUpdate \<lparr> eu_status = None, eu_data_limite = None \<rparr>"
    and v3: "valid_EventoUpdate \<lparr> eu_status = Some ''ABERTO'', eu_data_limite = None \<rparr>"
    and v4: "\<not> valid_EventoUpdate \<lparr> eu_status = Some ''ABERTA'', eu_data_limite = None \<rparr>"
    by (simp_all add: valid_EventoUpdate_def)
  have r1: "evento_response (spec_partial_update \<lparr> eu_status = Some ''FECHADO'', eu_data_limite = None \<rparr> e2)
      = \<lparr> data_evento = 19905, data_limite = 1500, nome = None, id = 2,
          status = ''FECHADO'', data_criacao = Some 20 \<rparr>"
    by (simp add: evento_response_def spec_partial_update_def e2_def)
  show ?thesis
    using atualizar_evento_correto [of "\<lparr> eu_status = Some ''FECHADO'', eu_data_limite = None \<rparr>" 2 banco_eventos e2]
      atualizar_evento_correto [of "\<lparr> eu_status = None, eu_data_limite = None \<rparr>" 2 banco_eventos e2]
      atualizar_evento_correto [of "\<lparr> eu_status = Some ''ABERTO'', eu_data_limite = None \<rparr>" 9 banco_eventos e2]
      atualizar_evento_correto [of "\<lparr> eu_status = Some ''ABERTA'', eu_data_limite = None \<rparr>" 2 banco_eventos e2]
      f2 f9 v1 v2 v3 v4 r1
    by simp
qed

section \<open>Properties of order creation\<close>

lemma montar_item_quantidade:
  assumes "montar_item db pp ki = Some row"
  shows "ip_quantidade row = ic_quantidade (snd ki)"
  using assms by (auto simp: montar_item_def split: option.splits)

lemma novos_itens_quantidade:
  assumes "row \<in> set (List.map_filter (\<lambda>l. l) (map (montar_item db pp) (enumerate n items)))"
  shows "\<exists>i \<in> set items. ip_quantidade row = ic_quantidade i"
proof -
  from assms obtain ki where ki: "ki \<in> set (enumerate n items)" "montar_item db pp ki = Some row"
    by (auto simp: List.map_filter_def)
  from ki(1) have "snd ki \<in> snd ` set (enumerate n items)" by (rule imageI)
  then have "snd ki \<in> set items"
    by (metis list.set_map map_snd_enumerate)
  with montar_item_quantidade [OF ki(2)] show ?thesis by blast
qed

lemma criar_pedido_itens:
  "itens_pedido (snd (criar_pedido pp agora usuario_id pedido db)) = itens_pedido db
   \<or> itens_pedido (snd (criar_pedido pp agora usuario_id pedido db)) =
       itens_pedido db @ List.map_filter (\<lambda>l. l) (map (montar_item db pp) (enumerate 0 (pc_itens pedido)))"
  by (simp add: criar_pedido_def Let_def split: option.splits)

text \<open>
  C7. A request with a line item whose quantity is below 1 or above 8 is rejected by the
  schema, whatever the handler: the handler does not run and the database is as it was.
  With the order-creation handler of the specification behind the schema, a database in
  which every stored line item has 1 to 8 slices stays so after any request.
\<close>

theorem quantidade_entre_1_e_8:
  "((\<exists>i \<in> set (pc_itens pedido). ic_quantidade i < 1 \<or> ic_quantidade i > 8) \<longrightarrow>
      post_pedidos handler pedido db = (Inl RequestValidationError, db))
   \<and> (quantidades_ok db \<longrightarrow>
      quantidades_ok (snd (post_pedidos (criar_pedido pp agora usuario_id) pedido db)))"
proof (intro conjI impI)
  assume "\<exists>i \<in> set (pc_itens pedido). ic_quantidade i < 1 \<or> ic_quantidade i > 8"
  then obtain i where "i \<in> set (pc_itens pedido)" "ic_quantidade i < 1 \<or> ic_quantidade i > 8"
    by blast
  then have "i \<in> set (pc_itens pedido)" "\<not> valid_ItemPedidoCreate i"
    by (auto simp: valid_ItemPedidoCreate_def)
  then have "\<not> list_all valid_ItemPedidoCreate (pc_itens pedido)"
    by (auto simp: list_all_iff)
  then show "post_pedidos handler pedido db = (Inl RequestValidationError, db)"
    by (simp add: post_pedidos_def valid_PedidoCreate_def)
next
  assume ok: "quantidades_ok db"
  show "quantidades_ok (snd (post_pedidos (criar_pedido pp agora usuario_id) pedido db))"
  proof (cases "valid_PedidoCreate pedido")
    case False
    with ok show ?thesis by (simp add: post_pedidos_def)
  next
    case True
    then have bounds: "\<forall>i \<in> set (pc_itens pedido). 1 \<le> ic_quantidade i \<and> ic_quantidade i \<le> 8"
      by (auto simp: valid_PedidoCreate_def list_all_iff valid_ItemPedidoCreate_def)
    have new: "1 \<le> ip_quantidade row \<and> ip_quantidade row \<le> 8"
      if "row \<in> set (List.map_filter (\<lambda>l. l) (map (montar_item db pp) (enumerate 0 (pc_itens pedido))))"
      for row
      using novos_itens_quantidade [OF that] bounds by auto
    from ok have old: "\<forall>row \<in> set (itens_pedido db). 1 \<le> ip_quantidade row \<and> ip_quantidade row \<le> 8"
      by (simp add: quantidades_ok_def list_all_iff)
    from criar_pedido_itens [of pp agora usuario_id pedido db] old new
    have "\<forall>row \<in> set (itens_pedido (snd (criar_pedido pp agora usuario_id pedido db))).
            1 \<le> ip_quantidade row \<and> ip_quantidade row \<le> 8"
      by auto
    with True show ?thesis
      by (simp add: post_pedidos_def quantidades_ok_def list_all_iff)
  qed
qed

theorem quantidade_entre_1_e_8_witness:
  "post_pedidos (criar_pedido pedido_padrao_exemplo 0 9)
      \<lparr> pc_evento_id = 1, pc_itens = [\<lparr> ic_sabor_id = 1, ic_quantidade = 9 \<rparr>,
                                      \<lparr> ic_sabor_id = 2, ic_quantidade = 1 \<rparr>] \<rparr> banco_exemplo
     = (Inl RequestValidationError, banco_exemplo)
   \<and> quantidades_ok (snd (post_pedidos (criar_pedido pedido_padrao_exemplo 0 9)
      \<lparr> pc_evento_id = 1, pc_itens = [\<lparr> ic_sabor_id = 1, ic_quantidade = 8 \<rparr>,
                                      \<lparr> ic_sabor_id = 2, ic_quantidade = 1 \<rparr>] \<rparr> banco_exemplo))
   \<and> map ip_quantidade (itens_pedido (snd (post_pedidos (criar_pedido pedido_padrao_exemplo 0 9)
      \<lparr> pc_evento_id = 1, pc_itens = [\<lparr> ic_sabor_id = 1, ic_quantidade = 8 \<rparr>,
                                      \<lparr> ic_sabor_id = 2, ic_quantidade = 1 \<rparr>] \<rparr> banco_exemplo)))
       = [5, 3, 4, 8, 1]"
proof -
  have bad: "\<exists>i \<in> set (pc_itens \<lparr> pc_evento_id = 1, pc_itens = [\<lparr> ic_sabor_id = 1, ic_quantidade = 9 \<rparr>,
                                      \<lparr> ic_sabor_id = 2, ic_quantidade = 1 \<rparr>] \<rparr>).
      ic_quantidade i < 1 \<or> ic_quantidade i > 8"
    by simp
  have ok: "quantidades_ok banco_exemplo"
    by (simp add: quantidades_ok_def banco_exemplo_def)
  have run: "map ip_quantidade (itens_pedido (snd (post_pedidos (criar_pedido pedido_padrao_exemplo 0 9)
      \<lparr> pc_evento_id = 1, pc_itens = [\<lparr> ic_sabor_id = 1, ic_quantidade = 8 \<rparr>,
                                      \<lparr> ic_sabor_id = 2, ic_quantidade = 1 \<rparr>] \<rparr> banco_exemplo)))
       = [5, 3, 4, 8, 1]"
    by code_simp
  show ?thesis
    using quantidade_entre_1_e_8 [of "\<lparr> pc_evento_id = 1, pc_itens = [\<lparr> ic_sabor_id = 1, ic_quantidade = 9 \<rparr>,
                                      \<lparr> ic_sabor_id = 2, ic_quantidade = 1 \<rparr>] \<rparr>"
          "criar_pedido pedido_padrao_exemplo 0 9" banco_exemplo]
      quantidade_entre_1_e_8 [of "\<lparr> pc_evento_id = 1, pc_itens = [\<lparr> ic_sabor_id = 1, ic_quantidade = 8 \<rparr>,
                                      \<lparr> ic_sabor_id = 2, ic_quantidade = 1 \<rparr>] \<rparr>"
          "criar_pedido pedido_padrao_exemplo 0 9" banco_exemplo pedido_padrao_exemplo 0 9]
      bad ok run
    by blast
qed

text \<open>
  C10. A request whose list of line items is empty is rejected by the schema, whatever
  the handler: the handler does not run and the database is as it was, although the
  per-item quantity bounds hold of every item of the empty list.
\<close>

theorem pedido_sem_itens_rejeitado:
  "pc_itens pedido = [] \<longrightarrow>
     list_all valid_ItemPedidoCreate (pc_itens pedido)
     \<and> post_pedidos handler pedido db = (Inl RequestValidationError, db)"
  by (simp add: post_pedidos_def valid_PedidoCreate_def)

theorem pedido_sem_itens_rejeitado_witness:
  "post_pedidos (criar_pedido pedido_padrao_exemplo 0 9) \<lparr> pc_evento_id = 1, pc_itens = [] \<rparr> banco_exemplo
     = (Inl RequestValidationError, banco_exemplo)"
  using pedido_sem_itens_rejeitado [of "\<lparr> pc_evento_id = 1, pc_itens = [] \<rparr>"
      "criar_pedido pedido_padrao_exemplo 0 9" banco_exemplo]
  by simp

section \<open>Properties of registration and login\<close>

lemma valid_UsuarioCreate_Base:
  "valid_UsuarioCreate novo \<Longrightarrow> valid_UsuarioBase (uc_nome_completo novo) (uc_setor novo)"
  by (simp add: valid_UsuarioCreate_def valid_UsuarioBase_def)

lemma register_fresh:
  assumes "usuario_por_nome db (uc_nome_completo novo) = None"
    and "valid_UsuarioCreate novo"
  shows "\<exists>row. register h pd novo db =
            (Inr (201, usuario_response row), db\<lparr> usuarios := usuarios db @ [row] \<rparr>)
          \<and> usuario_por_nome (db\<lparr> usuarios := usuarios db @ [row] \<rparr>) (uc_nome_completo novo) = Some row
          \<and> u_id row = pd_id pd
          \<and> u_nome_completo row = uc_nome_completo novo
          \<and> u_setor row = uc_setor novo
          \<and> u_senha_hash row = h (uc_senha novo)
          \<and> u_is_admin row = (if uc_is_admin novo then 1 else 0)"
proof -
  define row where "row = \<lparr> u_id = pd_id pd, u_nome_completo = uc_nome_completo novo,
      u_senha_hash = h (uc_senha novo), u_setor = uc_setor novo,
      u_is_admin = (if uc_is_admin novo then 1 else 0),
      u_ativo = pd_ativo pd, u_data_cadastro = pd_data_cadastro pd \<rparr>"
  have ins: "insert_usuario h pd novo db = db\<lparr> usuarios := usuarios db @ [row] \<rparr>"
    by (simp add: insert_usuario_def row_def)
  from assms have free: "\<forall>u \<in> set (usuarios db). u_nome_completo u \<noteq> uc_nome_completo novo"
    by (simp add: usuario_por_nome_def find_None_iff')
  have after: "usuario_por_nome (db\<lparr> usuarios := usuarios db @ [row] \<rparr>) (uc_nome_completo novo) = Some row"
    unfolding usuario_por_nome_def using free
    by (simp add: find_append_new row_def)
  have "montar_UsuarioResponse row = Inr (usuario_response row)"
    using valid_UsuarioCreate_Base [OF assms(2)] by (simp add: montar_UsuarioResponse_def row_def)
  then have "register h pd novo db =
          (Inr (201, usuario_response row), db\<lparr> usuarios := usuarios db @ [row] \<rparr>)"
    by (simp add: register_def assms(1) ins after)
  with after show ?thesis
    by (intro exI [of _ row]) (simp add: row_def)
qed

lemma login_ok:
  assumes "usuario_por_nome db (ul_nome_completo cred) = Some u"
    and "verify (ul_senha cred) (u_senha_hash u)"
    and "valid_UsuarioBase (u_nome_completo u) (u_setor u)"
  shows "login verify agora expira cred db =
     Inr (200, \<lparr> access_token = \<lparr> sub = str_int (u_id u), exp = agora + expira \<rparr>,
                 token_type = ''bearer'', user = usuario_response u \<rparr>)"
  using assms
  by (simp add: login_def authenticate_user_def create_access_token_def montar_UsuarioResponse_def)

lemma valor_decimal_str_int:
  assumes "0 \<le> i"
  shows "valor_decimal (str_int i) = nat i"
  using assms by (simp add: str_int_def valor_decimal_str_nat)

text \<open>
  C8. Registering with a name that a stored user already has fails with 400 and the
  credential store is as it was. Login with the name of a stored user and a password
  that does not verify against the stored hash fails with 401. Login with a password
  that verifies, for a stored user whose name and sector are within the bounds every
  registration enforces, returns a bearer token whose subject is that user's id written
  in decimal, and with it that user's id, name, sector, admin flag, active flag and
  registration date. And a user who has just registered, under a hashing scheme that
  verifies a password against its own hash, logs in with the same name and password and
  gets a token whose subject is the id assigned at registration, with the name and
  sector of the registration request.
\<close>

theorem registro_e_login:
  "(valid_UsuarioCreate novo \<and> usuario_por_nome db (uc_nome_completo novo) = Some existing \<longrightarrow>
      post_auth_register h pd authorization novo db = (Inl (HTTPException 400 usuario_ja_existe), db))
   \<and> (usuario_por_nome db (ul_nome_completo cred) = Some u
        \<and> \<not> verify (ul_senha cred) (u_senha_hash u) \<longrightarrow>
      login verify agora expira cred db = Inl (HTTPException 401 credenciais_incorretas))
   \<and> (usuario_por_nome db (ul_nome_completo cred) = Some u
        \<and> verify (ul_senha cred) (u_senha_hash u)
        \<and> 3 \<le> length (u_nome_completo u) \<and> length (u_nome_completo u) \<le> 200
        \<and> 2 \<le> length (u_setor u) \<and> length (u_setor u) \<le> 100 \<longrightarrow>
      (\<exists>tok. login verify agora expira cred db = Inr (200, tok)
            \<and> token_type tok = ''bearer''
            \<and> sub (access_token tok) = str_int (u_id u)
            \<and> (0 \<le> u_id u \<longrightarrow> int (valor_decimal (sub (access_token tok))) = u_id u)
            \<and> ur_id (user tok) = u_id u
            \<and> ur_nome_completo (user tok) = u_nome_completo u
            \<and> ur_nome_completo (user tok) = ul_nome_completo cred
            \<and> ur_setor (user tok) = u_setor u
            \<and> ur_is_admin (user tok) = (u_is_admin u \<noteq> 0)
            \<and> ur_ativo (user tok) = (u_ativo u \<noteq> 0)
            \<and> ur_data_cadastro (user tok) = u_data_cadastro u))
   \<and> (valid_UsuarioCreate novo \<and> usuario_por_nome db (uc_nome_completo novo) = None
        \<and> verify (uc_senha novo) (h (uc_senha novo)) \<longrightarrow>
      (\<exists>tok r. fst (post_auth_register h pd authorization novo db) = Inr (201, r)
            \<and> login verify agora expira
                 \<lparr> ul_nome_completo = uc_nome_completo novo, ul_senha = uc_senha novo \<rparr>
                 (snd (post_auth_register h pd authorization novo db)) = Inr (200, tok)
            \<and> token_type tok = ''bearer''
            \<and> sub (access_token tok) = str_int (pd_id pd)
            \<and> (0 \<le> pd_id pd \<longrightarrow> int (valor_decimal (sub (access_token tok))) = pd_id pd)
            \<and> ur_id r = pd_id pd
            \<and> ur_nome_completo r = uc_nome_completo novo
            \<and> ur_setor r = uc_setor novo
            \<and> ur_is_admin r = uc_is_admin novo
            \<and> user tok = r))"
proof (intro conjI impI)
  assume "valid_UsuarioCreate novo \<and> usuario_por_nome db (uc_nome_completo novo) = Some existing"
  then show "post_auth_register h pd authorization novo db = (Inl (HTTPException 400 usuario_ja_existe), db)"
    by (simp add: post_auth_register_def register_def)
next
  assume "usuario_por_nome db (ul_nome_completo cred) = Some u
        \<and> \<not> verify (ul_senha cred) (u_senha_hash u)"
  then show "login verify agora expira cred db = Inl (HTTPException 401 credenciais_incorretas)"
    by (simp add: login_def authenticate_user_def)
next
  assume a: "usuario_por_nome db (ul_nome_completo cred) = Some u
        \<and> verify (ul_senha cred) (u_senha_hash u)
        \<and> 3 \<le> length (u_nome_completo u) \<and> length (u_nome_completo u) \<le> 200
        \<and> 2 \<le> length (u_setor u) \<and> length (u_setor u) \<le> 100"
  then have name: "u_nome_completo u = ul_nome_completo cred"
    by (auto simp: usuario_por_nome_def find_Some_iff)
  from a have "valid_UsuarioBase (u_nome_completo u) (u_setor u)"
    by (simp add: valid_UsuarioBase_def)
  with a have ret: "login verify agora expira cred db =
     Inr (200, \<lparr> access_token = \<lparr> sub = str_int (u_id u), exp = agora + expira \<rparr>,
                 token_type = ''bearer'', user = usuario_response u \<rparr>)"
    by (simp add: login_ok)
  have dec: "0 \<le> u_id u \<longrightarrow> int (valor_decimal (str_int (u_id u))) = u_id u"
    by (simp add: valor_decimal_str_int)
  from ret dec name show "\<exists>tok. login verify agora expira cred db = Inr (200, tok)
            \<and> token_type tok = ''bearer''
            \<and> sub (access_token tok) = str_int (u_id u)
            \<and> (0 \<le> u_id u \<longrightarrow> int (valor_decimal (sub (access_token tok))) = u_id u)
            \<and> ur_id (user tok) = u_id u
            \<and> ur_nome_completo (user tok) = u_nome_completo u
            \<and> ur_nome_completo (user tok) = ul_nome_completo cred
            \<and> ur_setor (user tok) = u_setor u
            \<and> ur_is_admin (user tok) = (u_is_admin u \<noteq> 0)
            \<and> ur_ativo (user tok) = (u_ativo u \<noteq> 0)
            \<and> ur_data_cadastro (user tok) = u_data_cadastro u"
    by (simp add: usuario_response_def)
next
  assume a: "valid_UsuarioCreate novo \<and> usuario_por_nome db (uc_nome_completo novo) = None
        \<and> verify (uc_senha novo) (h (uc_senha novo))"
  then obtain row where row:
      "register h pd novo db = (Inr (201, usuario_response row), db\<lparr> usuarios := usuarios db @ [row] \<rparr>)"
      "usuario_por_nome (db\<lparr> usuarios := usuarios db @ [row] \<rparr>) (uc_nome_completo novo) = Some row"
      "u_id row = pd_id pd"
      "u_nome_completo row = uc_nome_completo novo"
      "u_setor row = uc_setor novo"
      "u_senha_hash row = h (uc_senha novo)"
      "u_is_admin row = (if uc_is_admin novo then 1 else 0)"
    using register_fresh [of db novo h pd] by blast
  from a row(1) have reg: "post_auth_register h pd authorization novo db =
      (Inr (201, usuario_response row), db\<lparr> usuarios := usuarios db @ [row] \<rparr>)"
    by (simp add: post_auth_register_def)
  have base: "valid_UsuarioBase (u_nome_completo row) (u_setor row)"
    using a valid_UsuarioCreate_Base [of novo] by (simp add: row(4,5))
  have log: "login verify agora expira
          \<lparr> ul_nome_completo = uc_nome_completo novo, ul_senha = uc_senha novo \<rparr>
          (db\<lparr> usuarios := usuarios db @ [row] \<rparr>) =
     Inr (200, \<lparr> access_token = \<lparr> sub = str_int (u_id row), exp = agora + expira \<rparr>,
                 token_type = ''bearer'', user = usuario_response row \<rparr>)"
    by (rule login_ok) (use a row base in simp_all)
  have dec: "0 \<le> pd_id pd \<longrightarrow> int (valor_decimal (str_int (pd_id pd))) = pd_id pd"
    by (simp add: valor_decimal_str_int)
  have fields: "ur_id (usuario_response row) = pd_id pd"
      "ur_nome_completo (usuario_response row) = uc_nome_completo novo"
      "ur_setor (usuario_response row) = uc_setor novo"
      "ur_is_admin (usuario_response row) = uc_is_admin novo"
    by (simp_all add: usuario_response_def row(3,4,5,7))
  from reg log dec fields row(3)
  show "\<exists>tok r. fst (post_auth_register h pd authorization novo db) = Inr (201, r)
            \<and> login verify agora expira
                 \<lparr> ul_nome_completo = uc_nome_completo novo, ul_senha = uc_senha novo \<rparr>
                 (snd (post_auth_register h pd authorization novo db)) = Inr (200, tok)
            \<and> token_type tok = ''bearer''
            \<and> sub (access_token tok) = str_int (pd_id pd)
            \<and> (0 \<le> pd_id pd \<longrightarrow> int (valor_decimal (sub (access_token tok))) = pd_id pd)
            \<and> ur_id r = pd_id pd
            \<and> ur_nome_completo r = uc_nome_completo novo
            \<and> ur_setor r = uc_setor novo
            \<and> ur_is_admin r = uc_is_admin novo
            \<and> user tok = r"
    by simp
qed

theorem registro_e_login_witness:
  "post_auth_register hash_exemplo padrao_exemplo None
      \<lparr> uc_nome_completo = ''Ana Lima'', uc_setor = ''RH'', uc_senha = ''abcdef'', uc_is_admin = False \<rparr>
      banco_usuarios = (Inl (HTTPException 400 usuario_ja_existe), banco_usuarios)
   \<and> login verify_exemplo 1000 30 \<lparr> ul_nome_completo = ''Ana Lima'', ul_senha = ''123457'' \<rparr> banco_usuarios
       = Inl (HTTPException 401 credenciais_incorretas)
   \<and> login verify_exemplo 1000 30 \<lparr> ul_nome_completo = ''Ana Lima'', ul_senha = ''123456'' \<rparr> banco_usuarios
       = Inr (200, \<lparr> access_token = \<lparr> sub = ''42'', exp = 1030 \<rparr>, token_type = ''bearer'',
                     user = \<lparr> ur_nome_completo = ''Ana Lima'', ur_setor = ''TI'', ur_id = 42,
                              ur_is_admin = False, ur_ativo = True, ur_data_cadastro = Some 5 \<rparr> \<rparr>)
   \<and> login verify_exemplo 1000 30 \<lparr> ul_nome_completo = ''Bia Reis'', ul_senha = ''abcdef'' \<rparr>
         (snd (post_auth_register hash_exemplo padrao_exemplo None
            \<lparr> uc_nome_completo = ''Bia Reis'', uc_setor = ''RH'', uc_senha = ''abcdef'', uc_is_admin = False \<rparr>
            banco_usuarios))
       = Inr (200, \<lparr> access_token = \<lparr> sub = ''43'', exp = 1030 \<rparr>, token_type = ''bearer'',
                     user = \<lparr> ur_nome_completo = ''Bia Reis'', ur_setor = ''RH'', ur_id = 43,
                              ur_is_admin = False, ur_ativo = True, ur_data_cadastro = Some 6 \<rparr> \<rparr>)"
proof -
  define ana where "ana = \<lparr> u_id = 42, u_nome_completo = ''Ana Lima'', u_senha_hash = ''654321'',
                     u_setor = ''TI'', u_is_admin = 0, u_ativo = 1, u_data_cadastro = Some 5 \<rparr>"
  define bia where "bia = \<lparr> uc_nome_completo = ''Bia Reis'', uc_setor = ''RH'', uc_senha = ''abcdef'',
                     uc_is_admin = False \<rparr>"
  define ana2 where "ana2 = \<lparr> uc_nome_completo = ''Ana Lima'', uc_setor = ''RH'', uc_senha = ''abcdef'',
                     uc_is_admin = False \<rparr>"
  define certa where "certa = \<lparr> ul_nome_completo = ''Ana Lima'', ul_senha = ''123456'' \<rparr>"
  define errada where "errada = \<lparr> ul_nome_completo = ''Ana Lima'', ul_senha = ''123457'' \<rparr>"
  note inst = registro_e_login [where db = banco_usuarios and verify = verify_exemplo
        and h = hash_exemplo and pd = padrao_exemplo and authorization = None
        and agora = 1000 and expira = 30 and u = ana and existing = ana]
  have fa: "usuario_por_nome banco_usuarios ''Ana Lima'' = Some ana"
    by (simp add: usuario_por_nome_def banco_usuarios_def ana_def)
  have va: "valid_UsuarioCreate ana2"
    by (simp add: valid_UsuarioCreate_def ana2_def)
  have dup: "post_auth_register hash_exemplo padrao_exemplo None ana2 banco_usuarios
      = (Inl (HTTPException 400 usuario_ja_existe), banco_usuarios)"
    using inst [where novo = ana2 and cred = errada] va fa by (simp add: ana2_def)
  have wrong: "\<not> verify_exemplo (ul_senha errada) (u_senha_hash ana)"
    and right: "verify_exemplo (ul_senha certa) (u_senha_hash ana)"
    by (simp_all add: verify_exemplo_def hash_exemplo_def ana_def certa_def errada_def)
  have bad: "login verify_exemplo 1000 30 errada banco_usuarios = Inl (HTTPException 401 credenciais_incorretas)"
    using inst [where novo = ana2 and cred = errada] fa wrong by (simp add: errada_def)
  have bounds: "3 \<le> length (u_nome_completo ana) \<and> length (u_nome_completo ana) \<le> 200
        \<and> 2 \<le> length (u_setor ana) \<and> length (u_setor ana) \<le> 100"
    by (simp add: ana_def)
  have s42: "str_int (u_id ana) = ''42''"
    by (simp add: ana_def str_int_def str_nat.simps digit_char_def)
  obtain tok where tok: "login verify_exemplo 1000 30 certa banco_usuarios = Inr (200, tok)"
      "token_type tok = ''bearer''" "sub (access_token tok) = str_int (u_id ana)"
      "ur_id (user tok) = u_id ana" "ur_nome_completo (user tok) = u_nome_completo ana"
      "ur_setor (user tok) = u_setor ana" "ur_is_admin (user tok) = (u_is_admin ana \<noteq> 0)"
      "ur_ativo (user tok) = (u_ativo ana \<noteq> 0)" "ur_data_cadastro (user tok) = u_data_cadastro ana"
    using inst [where novo = ana2 and cred = certa] fa right bounds
    by (auto simp: certa_def)
  have e1: "exp (access_token tok) = 1030"
    using tok(1) by (auto simp: login_def create_access_token_def Let_def split: option.splits sum.splits)
  have good: "login verify_exemplo 1000 30 certa banco_usuarios
       = Inr (200, \<lparr> access_token = \<lparr> sub = ''42'', exp = 1030 \<rparr>, token_type = ''bearer'',
                     user = \<lparr> ur_nome_completo = ''Ana Lima'', ur_setor = ''TI'', ur_id = 42,
                              ur_is_admin = False, ur_ativo = True, ur_data_cadastro = Some 5 \<rparr> \<rparr>)"
    using tok e1 s42 by (simp add: ana_def)
  have vb: "valid_UsuarioCreate bia"
    by (simp add: valid_UsuarioCreate_def bia_def)
  have fb: "usuario_por_nome banco_usuarios (uc_nome_completo bia) = None"
    by (simp add: usuario_por_nome_def banco_usuarios_def bia_def)
  have hb: "verify_exemplo (uc_senha bia) (hash_exemplo (uc_senha bia))"
    by (simp add: verify_exemplo_def)
  have rb: "fst (post_auth_register hash_exemplo padrao_exemplo None bia banco_usuarios) =
      Inr (201, \<lparr> ur_nome_completo = ''Bia Reis'', ur_setor = ''RH'', ur_id = 43,
                  ur_is_admin = False, ur_ativo = True, ur_data_cadastro = Some 6 \<rparr>)"
    unfolding bia_def by code_simp
  have s43: "str_int (pd_id padrao_exemplo) = ''43''"
    by (simp add: padrao_exemplo_def str_int_def str_nat.simps digit_char_def)
  obtain tokb r where t:
      "fst (post_auth_register hash_exemplo padrao_exemplo None bia banco_usuarios) = Inr (201, r)"
      "login verify_exemplo 1000 30
           \<lparr> ul_nome_completo = uc_nome_completo bia, ul_senha = uc_senha bia \<rparr>
           (snd (post_auth_register hash_exemplo padrao_exemplo None bia banco_usuarios)) = Inr (200, tokb)"
      "token_type tokb = ''bearer''"
      "sub (access_token tokb) = str_int (pd_id padrao_exemplo)" "user tokb = r"
    using inst [where novo = bia and cred = certa] vb fb hb
    by blast
  have e2: "exp (access_token tokb) = 1030"
    using t(2) by (auto simp: login_def create_access_token_def Let_def split: option.splits sum.splits)
  from t(1) rb have "r = \<lparr> ur_nome_completo = ''Bia Reis'', ur_setor = ''RH'', ur_id = 43,
                  ur_is_admin = False, ur_ativo = True, ur_data_cadastro = Some 6 \<rparr>"
    by simp
  with t(2,3,4,5) s43 e2 have flow: "login verify_exemplo 1000 30
           \<lparr> ul_nome_completo = uc_nome_completo bia, ul_senha = uc_senha bia \<rparr>
           (snd (post_auth_register hash_exemplo padrao_exemplo None bia banco_usuarios))
       = Inr (200, \<lparr> access_token = \<lparr> sub = ''43'', exp = 1030 \<rparr>, token_type = ''bearer'',
                     user = \<lparr> ur_nome_completo = ''Bia Reis'', ur_setor = ''RH'', ur_id = 43,
                              ur_is_admin = False, ur_ativo = True, ur_data_cadastro = Some 6 \<rparr> \<rparr>)"
    by simp
  from dup bad good flow show ?thesis
    by (simp add: ana2_def certa_def errada_def bia_def)
qed

text \<open>
  C9. The registration route gives the same result whatever \<open>Authorization\<close> header the
  request carries, and the same as with none. For a request without credentials whose
  body passes the schema and whose name is not taken, registration succeeds with 201 and
  stores one new user, whose admin flag is set exactly when the body's \<open>is_admin\<close> is true;
  so a body with \<open>is_admin\<close> true creates an administrator.
\<close>

theorem registro_admin_sem_autenticacao:
  "post_auth_register h pd authorization novo db = post_auth_register h pd None novo db
   \<and> (valid_UsuarioCreate novo \<and> usuario_por_nome db (uc_nome_completo novo) = None \<longrightarrow>
        (\<exists>row. post_auth_register h pd None novo db =
                  (Inr (201, usuario_response row), db\<lparr> usuarios := usuarios db @ [row] \<rparr>)
              \<and> u_nome_completo row = uc_nome_completo novo
              \<and> (u_is_admin row \<noteq> 0) = uc_is_admin novo
              \<and> ur_is_admin (usuario_response row) = uc_is_admin novo
              \<and> (uc_is_admin novo \<longrightarrow> u_is_admin row = 1)))"
proof (intro conjI impI)
  show "post_auth_register h pd authorization novo db = post_auth_register h pd None novo db"
    by (simp add: post_auth_register_def)
next
  assume a: "valid_UsuarioCreate novo \<and> usuario_por_nome db (uc_nome_completo novo) = None"
  then obtain row where row:
      "register h pd novo db = (Inr (201, usuario_response row), db\<lparr> usuarios := usuarios db @ [row] \<rparr>)"
      "u_nome_completo row = uc_nome_completo novo"
      "u_is_admin row = (if uc_is_admin novo then 1 else 0)"
    using register_fresh [of db novo h pd] by blast
  from a row(1) have "post_auth_register h pd None novo db =
      (Inr (201, usuario_response row), db\<lparr> usuarios := usuarios db @ [row] \<rparr>)"
    by (simp add: post_auth_register_def)
  with row(2,3) show "\<exists>row. post_auth_register h pd None novo db =
                  (Inr (201, usuario_response row), db\<lparr> usuarios := usuarios db @ [row] \<rparr>)
              \<and> u_nome_completo row = uc_nome_completo novo
              \<and> (u_is_admin row \<noteq> 0) = uc_is_admin novo
              \<and> ur_is_admin (usuario_response row) = uc_is_admin novo
              \<and> (uc_is_admin novo \<longrightarrow> u_is_admin row = 1)"
    by (intro exI [of _ row]) (simp add: usuario_response_def)
qed

theorem registro_admin_sem_autenticacao_witness:
  "\<exists>row. post_auth_register hash_exemplo padrao_exemplo None
      \<lparr> uc_nome_completo = ''Bia Reis'', uc_setor = ''RH'', uc_senha = ''abcdef'', uc_is_admin = True \<rparr>
      banco_usuarios
      = (Inr (201, usuario_response row), banco_usuarios\<lparr> usuarios := usuarios banco_usuarios @ [row] \<rparr>)
    \<and> u_nome_completo row = ''Bia Reis'' \<and> u_is_admin row = 1 \<and> ur_is_admin (usuario_response row)"
proof -
  have v: "valid_UsuarioCreate
      \<lparr> uc_nome_completo = ''Bia Reis'', uc_setor = ''RH'', uc_senha = ''abcdef'', uc_is_admin = True \<rparr>"
    by (simp add: valid_UsuarioCreate_def)
  have f: "usuario_por_nome banco_usuarios ''Bia Reis'' = None"
    by (simp add: usuario_por_nome_def banco_usuarios_def)
  show ?thesis
    using registro_admin_sem_autenticacao [of hash_exemplo padrao_exemplo None
        "\<lparr> uc_nome_completo = ''Bia Reis'', uc_setor = ''RH'', uc_senha = ''abcdef'', uc_is_admin = True \<rparr>"
        banco_usuarios] v f
    by auto
qed

end
